theory Spec2Isabelle
  imports Complex_Main
begin

section \<open>Python and NumPy primitives used by the gain transition\<close>

text \<open>
  The model follows \<^verbatim>\<open>audiomentations/augmentations/gain_transition.py\<close>.
  Samples and gains are \<^typ>\<open>real\<close>: the rounding of 32-bit floats is not modelled, every
  product and every power is the exact one. Python integers are \<^typ>\<open>int\<close>. Every
  exception the code can raise is a value of \<open>error\<close>.
\<close>

datatype error =
    ValueError string
  | AssertionError
  | TypeError
  | IndexError
  | KeyError string

text \<open>Sequencing: an exception ends the computation.\<close>

definition bind_err :: "error + 'a \<Rightarrow> ('a \<Rightarrow> error + 'b) \<Rightarrow> error + 'b" where
  "bind_err m f = (case m of Inl e \<Rightarrow> Inl e | Inr x \<Rightarrow> f x)"

text \<open>A duration is \<^verbatim>\<open>Union[float, int]\<close>.\<close>

datatype number = PyInt int | PyFloat real

fun num_val :: "number \<Rightarrow> real" where
  "num_val (PyInt i) = of_int i"
| "num_val (PyFloat x) = x"

text \<open>\<^verbatim>\<open>x * n\<close> for an integer \<open>n\<close>: an int stays an int, a float stays a float.\<close>

fun py_mul_int :: "number \<Rightarrow> int \<Rightarrow> number" where
  "py_mul_int (PyInt i) n = PyInt (i * n)"
| "py_mul_int (PyFloat x) n = PyFloat (x * of_int n)"

text \<open>Python's \<^verbatim>\<open>round\<close> of a float rounds a tie to the even neighbour.\<close>

definition round_half_even :: "real \<Rightarrow> int" where
  "round_half_even x =
     (let f = \<lfloor>x\<rfloor>; d = x - of_int f
      in if d < 1 / 2 then f
         else if 1 / 2 < d then f + 1
         else if even f then f else f + 1)"

text \<open>\<^verbatim>\<open>int(round(x))\<close>.\<close>

fun int_round :: "number \<Rightarrow> int" where
  "int_round (PyInt i) = i"
| "int_round (PyFloat x) = round_half_even x"

subsection \<open>Slices\<close>

text \<open>
  \<^verbatim>\<open>slice(a, b).indices(n)\<close> with step 1: a negative bound counts from the end, every
  bound is clamped to \<open>[0, n]\<close>. The slice selects the indices \<open>lo \<le> i < hi\<close>, none when
  \<open>hi \<le> lo\<close>.
\<close>

definition slice_bound :: "int \<Rightarrow> nat \<Rightarrow> nat" where
  "slice_bound i n = (if i < 0 then nat (max (i + int n) 0) else nat (min i (int n)))"

definition slice_indices :: "int option \<Rightarrow> int option \<Rightarrow> nat \<Rightarrow> nat \<times> nat" where
  "slice_indices a b n =
     ((case a of None \<Rightarrow> 0 | Some i \<Rightarrow> slice_bound i n),
      (case b of None \<Rightarrow> n | Some j \<Rightarrow> slice_bound j n))"

text \<open>\<^verbatim>\<open>xs[a:b]\<close> read from a one-dimensional array.\<close>

definition getslice :: "'a list \<Rightarrow> int option \<Rightarrow> int option \<Rightarrow> 'a list" where
  "getslice xs a b =
     (case slice_indices a b (length xs) of (lo, hi) \<Rightarrow> take (hi - lo) (drop lo xs))"

subsection \<open>\<^verbatim>\<open>np.linspace\<close> and the decibel conversion\<close>

text \<open>
  \<^verbatim>\<open>np.linspace(start, stop, num)\<close> with the default \<^verbatim>\<open>endpoint=True\<close>, step by step as
  NumPy computes it: \<^verbatim>\<open>arange(0, num)\<close> scaled by the step, shifted by \<open>start\<close>, and the
  last point overwritten with \<open>stop\<close> when there are at least two points. A negative
  \<open>num\<close> raises.
\<close>

definition np_linspace :: "real \<Rightarrow> real \<Rightarrow> int \<Rightarrow> error + real list" where
  "np_linspace start stop num =
     (if num < 0 then Inl (ValueError ''Number of samples must be non-negative.'')
      else
        let n = nat num;
            dv = num - 1;
            delta = stop - start;
            y = map real [0..<n];
            y = (if 0 < dv then
                   (let step = delta / of_int dv
                    in if step = 0 then map (\<lambda>v. v / of_int dv * delta) y
                       else map (\<lambda>v. v * step) y)
                 else map (\<lambda>v. v * delta) y);
            y = map (\<lambda>v. v + start) y;
            y = (if 1 < num then y[n - 1 := stop] else y)
        in Inr y)"

text \<open>
  Modelled from the spec: \<^verbatim>\<open>convert_decibels_to_amplitude_ratio\<close> of
  \<^verbatim>\<open>audiomentations.core.utils\<close> is not among the sources; the specification gives it as
  the pure function \<open>db \<mapsto> 10^(db/20)\<close>, applied to a scalar or elementwise.
\<close>

definition convert_decibels_to_amplitude_ratio :: "real \<Rightarrow> real" where
  "convert_decibels_to_amplitude_ratio db = 10 powr (db / 20)"

subsection \<open>The fade curve\<close>

definition get_fade_mask :: "real \<Rightarrow> real \<Rightarrow> int \<Rightarrow> error + real list" where
  "get_fade_mask start_level_db end_level_db num =
     (case np_linspace start_level_db end_level_db num of
        Inl e \<Rightarrow> Inl e
      | Inr fade_mask \<Rightarrow> Inr (map convert_decibels_to_amplitude_ratio fade_mask))"

section \<open>Arrays and the store\<close>

text \<open>
  An \<^verbatim>\<open>ndarray\<close> with at least one axis: its \<open>dtype\<close>, its \<open>shape\<close>, and its data as
  the list of its rows along the last axis (one row for a 1-D array, one row per channel
  for a 2-D array of shape (channels, samples)).
\<close>

datatype dtype = Float32 | Float64

record ndarray =
  dtype :: dtype
  shape :: "nat list"
  rows :: "real list list"

definition wf_ndarray :: "ndarray \<Rightarrow> bool" where
  "wf_ndarray a \<longleftrightarrow>
     shape a \<noteq> [] \<and>
     length (rows a) = prod_list (butlast (shape a)) \<and>
     list_all (\<lambda>r. length r = last (shape a)) (rows a)"

text \<open>\<^verbatim>\<open>a.shape[-1]\<close>.\<close>

definition shape_last :: "ndarray \<Rightarrow> error + nat" where
  "shape_last a = (case shape a of [] \<Rightarrow> Inl IndexError | _ \<Rightarrow> Inr (last (shape a)))"

text \<open>
  \<^verbatim>\<open>row[lo:hi] *= v\<close> on one row, \<open>v\<close> broadcast when it has a single element.
\<close>

definition imul_row :: "real list \<Rightarrow> nat \<Rightarrow> nat \<Rightarrow> real list \<Rightarrow> real list" where
  "imul_row row lo hi v =
     map (\<lambda>i. if lo \<le> i \<and> i < hi
               then row ! i * (if length v = 1 then v ! 0 else v ! (i - lo))
               else row ! i)
         [0..<length row]"

text \<open>
  \<^verbatim>\<open>a[..., s:e] *= v\<close> for a one-dimensional \<open>v\<close>: NumPy accepts \<open>v\<close> when its length is
  that of the slice or 1, and raises otherwise; the same \<open>v\<close> multiplies every row.
\<close>

definition imul_slice ::
  "ndarray \<Rightarrow> int option \<Rightarrow> int option \<Rightarrow> real list \<Rightarrow> error + ndarray" where
  "imul_slice a s e v =
     (case shape_last a of
        Inl err \<Rightarrow> Inl err
      | Inr n \<Rightarrow>
          (case slice_indices s e n of (lo, hi) \<Rightarrow>
             if length v = hi - lo \<or> length v = 1
             then Inr (a\<lparr>rows := map (\<lambda>r. imul_row r lo hi v) (rows a)\<rparr>)
             else Inl (ValueError ''operands could not be broadcast together'')))"

text \<open>\<^verbatim>\<open>a[..., s:e] *= c\<close> for a scalar \<open>c\<close>.\<close>

definition imul_slice_scalar ::
  "ndarray \<Rightarrow> int option \<Rightarrow> int option \<Rightarrow> real \<Rightarrow> error + ndarray" where
  "imul_slice_scalar a s e c = imul_slice a s e [c]"

text \<open>
  The store holds every array buffer; a reference is an index into it. \<^verbatim>\<open>np.copy\<close>
  allocates a new buffer with the contents, shape and dtype of its argument; an in-place
  multiplication writes to the buffer its left-hand side refers to.
\<close>

type_synonym ref = nat
type_synonym heap = "ndarray list"

definition np_copy :: "heap \<Rightarrow> ref \<Rightarrow> ref \<times> heap" where
  "np_copy h r = (length h, h @ [h ! r])"

definition heap_imul ::
  "heap \<Rightarrow> ref \<Rightarrow> int option \<Rightarrow> int option \<Rightarrow> real list \<Rightarrow> error + heap" where
  "heap_imul h r s e v =
     (case imul_slice (h ! r) s e v of Inl err \<Rightarrow> Inl err | Inr a \<Rightarrow> Inr (h[r := a]))"

definition heap_imul_scalar ::
  "heap \<Rightarrow> ref \<Rightarrow> int option \<Rightarrow> int option \<Rightarrow> real \<Rightarrow> error + heap" where
  "heap_imul_scalar h r s e c =
     (case imul_slice_scalar (h ! r) s e c of Inl err \<Rightarrow> Inl err | Inr a \<Rightarrow> Inr (h[r := a]))"

section \<open>The random source\<close>

text \<open>
  Python's \<^verbatim>\<open>random\<close> module is a generator state and two primitive draws on it:
  \<^verbatim>\<open>random()\<close>, a float in \<open>[0, 1)\<close>, and \<^verbatim>\<open>_randbelow(n)\<close>, an integer in \<open>[0, n)\<close>.
  Both are parameters here; \<^verbatim>\<open>randint\<close> and \<^verbatim>\<open>uniform\<close> are written over them as the
  standard library does.
\<close>

record 'g random_source =
  random_draw :: "'g \<Rightarrow> real \<times> 'g"
  randbelow :: "'g \<Rightarrow> int \<Rightarrow> int \<times> 'g"

text \<open>
  \<^verbatim>\<open>random.randint(a, b)\<close> is \<^verbatim>\<open>randrange(a, b + 1)\<close>: a float argument is a TypeError
  (Python 3.12), an empty range a ValueError.
\<close>

fun randint :: "'g random_source \<Rightarrow> 'g \<Rightarrow> number \<Rightarrow> number \<Rightarrow> error + (int \<times> 'g)" where
  "randint R g (PyInt a) (PyInt b) =
     (let width = b + 1 - a
      in if 0 < width
         then (case randbelow R g width of (k, g') \<Rightarrow> Inr (a + k, g'))
         else Inl (ValueError ''empty range in randrange''))"
| "randint R g _ _ = Inl TypeError"

text \<open>\<^verbatim>\<open>random.uniform(a, b)\<close> is \<^verbatim>\<open>a + (b - a) * random()\<close>.\<close>

definition uniform :: "'g random_source \<Rightarrow> 'g \<Rightarrow> real \<Rightarrow> real \<Rightarrow> real \<times> 'g" where
  "uniform R g a b = (case random_draw R g of (u, g') \<Rightarrow> (a + (b - a) * u, g'))"

section \<open>The transform\<close>

text \<open>
  \<^verbatim>\<open>self.parameters\<close> is a dictionary with a fixed set of keys; a key that has not been
  stored yet is \<open>None\<close>, and reading it is a \<^verbatim>\<open>KeyError\<close>.
\<close>

record parameters =
  should_apply :: "bool option"
  fade_time_samples :: "int option"
  t0 :: "int option"
  start_gain_db :: "real option"
  end_gain_db :: "real option"

definition empty_parameters :: parameters where
  "empty_parameters =
     \<lparr>should_apply = None, fade_time_samples = None, t0 = None,
      start_gain_db = None, end_gain_db = None\<rparr>"

record GainTransition =
  p :: real
  parameters :: parameters
  min_gain_db :: real
  max_gain_db :: real
  min_duration :: number
  max_duration :: number
  duration_unit :: string

text \<open>The keyword arguments of the constructor; \<open>None\<close> is Python's \<^verbatim>\<open>None\<close>.\<close>

record init_args =
  arg_min_gain_in_db :: "real option"
  arg_max_gain_in_db :: "real option"
  arg_min_gain_db :: "real option"
  arg_max_gain_db :: "real option"
  arg_min_duration :: number
  arg_max_duration :: number
  arg_duration_unit :: string
  arg_p :: real

text \<open>The defaults of the signature.\<close>

definition default_args :: init_args where
  "default_args =
     \<lparr>arg_min_gain_in_db = None, arg_max_gain_in_db = None,
      arg_min_gain_db = None, arg_max_gain_db = None,
      arg_min_duration = PyFloat (2 / 10), arg_max_duration = PyFloat 6,
      arg_duration_unit = ''seconds'', arg_p = 1 / 2\<rparr>"

text \<open>
  Modelled from the spec: the base class \<^verbatim>\<open>BaseWaveformTransform\<close> is not among the
  sources. By the specification its constructor stores the application probability
  \<open>p \<in> [0, 1]\<close>, construction failing when the bound is violated, and starts with an empty
  \<^verbatim>\<open>parameters\<close> mapping.
\<close>

definition base_init :: "real \<Rightarrow> error + (real \<times> parameters)" where
  "base_init pr = (if 0 \<le> pr \<and> pr \<le> 1 then Inr (pr, empty_parameters) else Inl AssertionError)"

text \<open>
  One gain bound of \<^verbatim>\<open>__init__\<close> (lines 77-91 for the minimum, 93-107 for the maximum):
  the new name, its deprecated alias, the default, and the message of the error. The
  result carries the deprecation warning, if one was issued.
\<close>

definition resolve_gain ::
  "real option \<Rightarrow> real option \<Rightarrow> real \<Rightarrow> string \<Rightarrow> string \<Rightarrow> error + (real \<times> string list)" where
  "resolve_gain new_arg old_arg dflt both_msg deprecation_msg =
     (case new_arg of
        Some v \<Rightarrow>
          (case old_arg of
             Some _ \<Rightarrow> Inl (ValueError both_msg)
           | None \<Rightarrow> Inr (v, []))
      | None \<Rightarrow>
          (case old_arg of
             Some w \<Rightarrow> Inr (w, [deprecation_msg])
           | None \<Rightarrow> Inr (dflt, [])))"

text \<open>\<^verbatim>\<open>GainTransition.__init__\<close>: the new object and the warnings issued.\<close>

definition GainTransition_init :: "init_args \<Rightarrow> error + (GainTransition \<times> string list)" where
  "GainTransition_init args =
     (case base_init (arg_p args) of
        Inl e \<Rightarrow> Inl e
      | Inr (pr, params) \<Rightarrow>
     (case resolve_gain (arg_min_gain_db args) (arg_min_gain_in_db args) (- 24)
             ''Passing both min_gain_db and min_gain_in_db is not supported. Use only min_gain_db.''
             ''The min_gain_in_db parameter is deprecated. Use min_gain_db instead.'' of
        Inl e \<Rightarrow> Inl e
      | Inr (min_gain, w1) \<Rightarrow>
     (case resolve_gain (arg_max_gain_db args) (arg_max_gain_in_db args) 6
             ''Passing both max_gain_db and max_gain_in_db is not supported. Use only max_gain_db.''
             ''The max_gain_in_db parameter is deprecated. Use max_gain_db instead.'' of
        Inl e \<Rightarrow> Inl e
      | Inr (max_gain, w2) \<Rightarrow>
          if \<not> min_gain \<le> max_gain then Inl AssertionError
          else if \<not> 0 < num_val (arg_min_duration args) then Inl AssertionError
          else if \<not> num_val (arg_min_duration args) \<le> num_val (arg_max_duration args)
            then Inl AssertionError
          else Inr (\<lparr>p = pr, parameters = params,
                     min_gain_db = min_gain, max_gain_db = max_gain,
                     min_duration = arg_min_duration args,
                     max_duration = arg_max_duration args,
                     duration_unit = arg_duration_unit args\<rparr>, w1 @ w2))))"

text \<open>
  Modelled from the spec: \<^verbatim>\<open>super().randomize_parameters\<close> of the absent base class
  draws \<open>should_apply\<close> from a Bernoulli trial of probability \<open>p\<close>; here it is one
  \<^verbatim>\<open>random()\<close> draw compared with \<open>p\<close>.
\<close>

definition base_randomize_parameters ::
  "'g random_source \<Rightarrow> GainTransition \<Rightarrow> 'g \<Rightarrow> GainTransition \<times> 'g" where
  "base_randomize_parameters R self g =
     (case random_draw R g of (u, g') \<Rightarrow>
        (self\<lparr>parameters := (parameters self)\<lparr>should_apply := Some (u < p self)\<rparr>\<rparr>, g'))"

text \<open>
  Lines 120-134: the duration bounds in samples, by unit. \<^verbatim>\<open>samples.shape[-1]\<close> is read
  in the \<^verbatim>\<open>fraction\<close> branch only.
\<close>

definition duration_in_samples ::
  "GainTransition \<Rightarrow> ndarray \<Rightarrow> int \<Rightarrow> error + (number \<times> number)" where
  "duration_in_samples self samples sample_rate =
     (if duration_unit self = ''samples'' then
        Inr (min_duration self, max_duration self)
      else if duration_unit self = ''fraction'' then
        (case shape_last samples of
           Inl e \<Rightarrow> Inl e
         | Inr n \<Rightarrow>
             Inr (PyInt (int_round (py_mul_int (min_duration self) (int n))),
                  PyInt (int_round (py_mul_int (max_duration self) (int n)))))
      else if duration_unit self = ''seconds'' then
        Inr (PyInt (int_round (py_mul_int (min_duration self) sample_rate)),
             PyInt (int_round (py_mul_int (max_duration self) sample_rate)))
      else Inl (ValueError ''Invalid duration_unit''))"

text \<open>
  \<^verbatim>\<open>GainTransition.randomize_parameters\<close>. The four draws are made in the order of the
  source. An exception leaves the object as it was when raised; the model returns the
  error alone.
\<close>

definition GainTransition_randomize_parameters ::
  "'g random_source \<Rightarrow> GainTransition \<Rightarrow> 'g \<Rightarrow> ndarray \<Rightarrow> int \<Rightarrow> error + (GainTransition \<times> 'g)" where
  "GainTransition_randomize_parameters R self0 g0 samples sample_rate =
     (case base_randomize_parameters R self0 g0 of (self, g) \<Rightarrow>
      if should_apply (parameters self) = Some True then
        bind_err (duration_in_samples self samples sample_rate)
          (\<lambda>(min_duration_in_samples, max_duration_in_samples).
        bind_err (randint R g min_duration_in_samples max_duration_in_samples)
          (\<lambda>(d, g1).
        let fts = max 3 d in
        bind_err (shape_last samples)
          (\<lambda>num_samples.
        bind_err (randint R g1 (PyInt (- fts + 2)) (PyInt (int num_samples - 2)))
          (\<lambda>(t, g2).
        case uniform R g2 (min_gain_db self) (max_gain_db self) of (sg, g3) \<Rightarrow>
        case uniform R g3 (min_gain_db self) (max_gain_db self) of (eg, g4) \<Rightarrow>
          Inr (self\<lparr>parameters := (parameters self)
                     \<lparr>fade_time_samples := Some fts, t0 := Some t,
                      start_gain_db := Some sg, end_gain_db := Some eg\<rparr>\<rparr>, g4)))))
      else Inr (self, g))"

text \<open>
  Lines 157-169 of \<^verbatim>\<open>apply\<close>: the window \<open>[t, t + fts)\<close> is cut to the waveform, and
  the curve with it. The result is the cropped curve and the effective start and end.
\<close>

definition crop_fade_mask ::
  "real list \<Rightarrow> int \<Rightarrow> int \<Rightarrow> int \<Rightarrow> real list \<times> int \<times> int" where
  "crop_fade_mask fade_mask t fts num_samples =
     (let start_sample_index = t;
          end_sample_index = start_sample_index + fts;
          (fade_mask, start_sample_index) =
            (if start_sample_index < 0
             then (let num_samples_to_shave_off = \<bar>start_sample_index\<bar>
                   in (getslice fade_mask (Some num_samples_to_shave_off) None, 0))
             else (fade_mask, start_sample_index));
          (fade_mask, end_sample_index) =
            (if num_samples < end_sample_index
             then (let num_samples_to_shave_off = end_sample_index - num_samples
                   in (getslice fade_mask None
                         (Some (int (length fade_mask) - num_samples_to_shave_off)),
                       num_samples))
             else (fade_mask, end_sample_index))
      in (fade_mask, start_sample_index, end_sample_index))"

text \<open>Reading a key of \<^verbatim>\<open>self.parameters\<close>.\<close>

definition lookup :: "string \<Rightarrow> 'a option \<Rightarrow> error + 'a" where
  "lookup key v = (case v of None \<Rightarrow> Inl (KeyError key) | Some x \<Rightarrow> Inr x)"

text \<open>
  \<^verbatim>\<open>GainTransition.apply\<close> on the store: \<open>samples\<close> refers to the caller's array, the
  result is the reference the method returns and the store it leaves.
\<close>

definition GainTransition_apply ::
  "GainTransition \<Rightarrow> heap \<Rightarrow> ref \<Rightarrow> int \<Rightarrow> error + (ref \<times> heap)" where
  "GainTransition_apply self h samples sample_rate =
     bind_err (shape_last (h ! samples)) (\<lambda>num_samples.
     bind_err (lookup ''start_gain_db'' (start_gain_db (parameters self))) (\<lambda>sg.
     bind_err (lookup ''end_gain_db'' (end_gain_db (parameters self))) (\<lambda>eg.
     bind_err (lookup ''fade_time_samples'' (fade_time_samples (parameters self))) (\<lambda>fts.
     bind_err (get_fade_mask sg eg fts) (\<lambda>fade_mask.
     bind_err (lookup ''t0'' (t0 (parameters self))) (\<lambda>t.
     case crop_fade_mask fade_mask t fts (int num_samples) of
       (fade_mask, start_sample_index, end_sample_index) \<Rightarrow>
     case np_copy h samples of (samples, h) \<Rightarrow>
     bind_err (heap_imul h samples (Some start_sample_index) (Some end_sample_index) fade_mask)
       (\<lambda>h.
     bind_err (if 0 < start_sample_index
               then heap_imul_scalar h samples None (Some start_sample_index)
                      (convert_decibels_to_amplitude_ratio sg)
               else Inr h)
       (\<lambda>h.
     bind_err (if end_sample_index < int num_samples
               then heap_imul_scalar h samples (Some end_sample_index) None
                      (convert_decibels_to_amplitude_ratio eg)
               else Inr h)
       (\<lambda>h.
     Inr (samples, h))))))))))"

text \<open>
  Modelled from the spec: the gated invocation \<^verbatim>\<open>transform(waveform, sample_rate)\<close> of the
  absent base class. It randomizes the parameters, calls \<^verbatim>\<open>apply\<close> only when
  \<open>should_apply\<close> is true and otherwise returns the waveform unchanged. The result is the
  returned reference, the store, the object and the generator state.
\<close>

definition transform_call ::
  "'g random_source \<Rightarrow> GainTransition \<Rightarrow> 'g \<Rightarrow> heap \<Rightarrow> ref \<Rightarrow> int
     \<Rightarrow> error + (ref \<times> heap \<times> GainTransition \<times> 'g)" where
  "transform_call R self g h samples sample_rate =
     bind_err (GainTransition_randomize_parameters R self g (h ! samples) sample_rate)
       (\<lambda>(self', g').
          if should_apply (parameters self') = Some True
          then bind_err (GainTransition_apply self' h samples sample_rate)
                 (\<lambda>(out, h'). Inr (out, h', self', g'))
          else Inr (samples, h, self', g'))"

text \<open>
  The number of indices of the transition window \<open>[t, t + fts)\<close> that are indices of a
  waveform of \<open>total_samples\<close> samples.
\<close>

definition window_overlap :: "int \<Rightarrow> int \<Rightarrow> nat \<Rightarrow> nat" where
  "window_overlap t fts total_samples =
     length (filter (\<lambda>i. 0 \<le> i \<and> i < int total_samples) [t..t + fts - 1])"


text \<open>
  What the caller of the transform observes: the reference returned, the store, and the
  state of the generator.
\<close>

definition call_result ::
  "error + (ref \<times> heap \<times> GainTransition \<times> 'g) \<Rightarrow> error + (ref \<times> heap \<times> 'g)" where
  "call_result r = (case r of Inl e \<Rightarrow> Inl e | Inr (out, h', self', g') \<Rightarrow> Inr (out, h', g'))"

section \<open>Example data\<close>

text \<open>
  A generator with a counter as its state, a stereo waveform of five samples, and a
  transform whose parameters place a four-sample transition from 0 dB to -30 dB one sample
  before the start of the waveform.
\<close>

definition example_source :: "nat random_source" where
  "example_source =
     \<lparr>random_draw = (\<lambda>g. (1 / (real g + 2), Suc g)),
      randbelow = (\<lambda>g n. (int g mod n, Suc g))\<rparr>"

definition example_stereo :: ndarray where
  "example_stereo =
     \<lparr>dtype = Float32, shape = [2, 5], rows = [[1, 1, 1, 1, 1], [2, 2, 2, 2, 2]]\<rparr>"

definition example_transform :: GainTransition where
  "example_transform =
     \<lparr>p = 1,
      parameters = \<lparr>should_apply = Some True, fade_time_samples = Some 4, t0 = Some (- 1),
                    start_gain_db = Some 0, end_gain_db = Some (- 30)\<rparr>,
      min_gain_db = - 30, max_gain_db = 0,
      min_duration = PyInt 1, max_duration = PyInt 8, duration_unit = ''samples''\<rparr>"

section \<open>The fade curve and the cropping step\<close>

lemma np_linspace_Inr:
  "0 \<le> num \<Longrightarrow> \<exists>y. np_linspace s e num = Inr y \<and> length y = nat num"
  by (simp add: np_linspace_def Let_def)


lemma np_linspace_nth:
  assumes "2 \<le> num" "np_linspace s e num = Inr y" "i < nat num"
  shows "y ! i = s + real i * (e - s) / real_of_int (num - 1)"
proof -
  have n: "0 < num - 1" "\<not> num < 0" "1 < num" using assms by auto
  have ri: "real_of_int (num - 1) = real (nat num - 1)" using assms by simp
  show ?thesis
  proof (cases "i = nat num - 1")
    case True
    then show ?thesis using assms n
      by (auto simp: np_linspace_def Let_def ri simp del: of_int_diff)
  next
    case False
    then show ?thesis using assms n
      by (auto simp: np_linspace_def Let_def simp del: of_int_diff)
  qed
qed

lemma get_fade_mask_Inr:
  "0 \<le> num \<Longrightarrow> \<exists>m. get_fade_mask s e num = Inr m \<and> length m = nat num"
  using np_linspace_Inr [of num s e] by (auto simp: get_fade_mask_def)


lemma get_fade_mask_nth:
  assumes "2 \<le> num" "get_fade_mask s e num = Inr m" "i < nat num"
  shows "m ! i =
    convert_decibels_to_amplitude_ratio (s + real i * (e - s) / real_of_int (num - 1))"
proof -
  obtain y where y: "np_linspace s e num = Inr y" "length y = nat num"
    using np_linspace_Inr [of num s e] assms(1) by auto
  have "m = map convert_decibels_to_amplitude_ratio y"
    using assms(2) y by (simp add: get_fade_mask_def)
  then show ?thesis using np_linspace_nth [OF assms(1) y(1) assms(3)] y(2) assms(3) by simp
qed







lemma length_getslice_from:
  "0 \<le> k \<Longrightarrow> length (getslice xs (Some k) None) = length xs - nat k"
  by (auto simp: getslice_def slice_indices_def slice_bound_def min_def)

lemma length_getslice_upto:
  "0 \<le> j \<Longrightarrow> j \<le> int (length xs) \<Longrightarrow> length (getslice xs None (Some j)) = nat j"
  by (auto simp: getslice_def slice_indices_def slice_bound_def min_def)

lemma crop_fade_mask_valid:
  assumes "3 \<le> fts" "- fts + 2 \<le> t" "t \<le> int n - 2" "length curve = nat fts"
  shows "\<exists>curve'. crop_fade_mask curve t fts (int n) = (curve', max t 0, min (t + fts) (int n)) \<and>
           int (length curve') = min (t + fts) (int n) - max t 0"
  using assms
  by (auto simp: crop_fade_mask_def Let_def length_getslice_from length_getslice_upto)


text \<open>
  C1. For \<open>fade_time_samples \<ge> 3\<close> and \<open>t0\<close> in
  \<open>[-fade_time_samples + 2, total_samples - 2]\<close>, the cropping step of \<^verbatim>\<open>apply\<close> yields
  the effective start \<open>max(t0, 0)\<close>, the effective end
  \<open>min(t0 + fade_time_samples, total_samples)\<close> and a cropped curve whose length is exactly
  their difference.
\<close>

theorem cropped_curve_length:
  assumes "3 \<le> fts" "- fts + 2 \<le> t" "t \<le> int total_samples - 2"
  shows "\<exists>curve curve'.
           get_fade_mask sg eg fts = Inr curve \<and>
           crop_fade_mask curve t fts (int total_samples) =
             (curve', max t 0, min (t + fts) (int total_samples)) \<and>
           int (length curve') = min (t + fts) (int total_samples) - max t 0"
proof -
  obtain curve where c: "get_fade_mask sg eg fts = Inr curve" "length curve = nat fts"
    using get_fade_mask_Inr [of fts sg eg] assms(1) by auto
  from crop_fade_mask_valid [OF assms c(2)] c(1) show ?thesis by blast
qed

theorem cropped_curve_length_witness:
  "(3::int) \<le> 3 \<and> - 3 + 2 \<le> (- 1 :: int) \<and> (- 1 :: int) \<le> int 1 - 2 \<and>
   (\<exists>curve curve'.
      get_fade_mask 0 (- 20) 3 = Inr curve \<and>
      crop_fade_mask curve (- 1) 3 (int 1) = (curve', 0, 1) \<and>
      int (length curve') = 1)"
  using cropped_curve_length [of 3 "- 1" 1 0 "- 20"] by simp

lemma window_overlap_eq:
  "window_overlap t fts n = nat (min (t + fts) (int n) - max t 0)"
proof -
  have "window_overlap t fts n = card ({i. 0 \<le> i \<and> i < int n} \<inter> set [t..t + fts - 1])"
    unfolding window_overlap_def by (rule distinct_length_filter) simp
  also have "{i. 0 \<le> i \<and> i < int n} \<inter> set [t..t + fts - 1] = {max t 0..<min (t + fts) (int n)}"
    by auto
  finally show ?thesis by simp
qed

lemma crop_fade_mask_bounds:
  "(case crop_fade_mask curve t fts n of (c, s, e) \<Rightarrow> (s, e)) = (max t 0, min (t + fts) n)"
  by (auto simp: crop_fade_mask_def Let_def)

text \<open>
  C7 (as amended). For \<open>fade_time_samples \<ge> 3\<close> and \<open>t0\<close> in
  \<open>[-fade_time_samples + 2, total_samples - 2]\<close>, the window overlaps the waveform in at
  least \<open>min(2, total_samples)\<close> samples, hence in at least 2 when the waveform has 2
  samples or more; the overlap is the effective range \<open>[start, end)\<close> that \<^verbatim>\<open>apply\<close>
  computes.
\<close>

theorem window_overlap_lower_bound:
  assumes "3 \<le> fts" "- fts + 2 \<le> t" "t \<le> int total_samples - 2"
  shows "min 2 total_samples \<le> window_overlap t fts total_samples \<and>
         (case crop_fade_mask curve t fts (int total_samples) of
            (c, s, e) \<Rightarrow> e - s = int (window_overlap t fts total_samples))"
proof -
  have b: "(case crop_fade_mask curve t fts (int total_samples) of (c, s, e) \<Rightarrow> (s, e))
             = (max t 0, min (t + fts) (int total_samples))"
    by (rule crop_fade_mask_bounds)
  have "min 2 total_samples \<le> window_overlap t fts total_samples"
    using assms by (simp add: window_overlap_eq)
  moreover have "min (t + fts) (int total_samples) - max t 0
      = int (window_overlap t fts total_samples)"
    using assms by (simp add: window_overlap_eq)
  ultimately show ?thesis using b by (auto split: prod.splits)
qed

theorem window_overlap_lower_bound_witness:
  "(3::int) \<le> 4 \<and> - 4 + 2 \<le> (- 1 :: int) \<and> (- 1 :: int) \<le> int 10 - 2 \<and>
   min 2 10 \<le> window_overlap (- 1) 4 10 \<and>
   (case crop_fade_mask [1, 2, 3, 4] (- 1) 4 (int 10) of
      (c, s, e) \<Rightarrow> e - s = int (window_overlap (- 1) 4 10))"
  using window_overlap_lower_bound [of 4 "- 1" 10 "[1, 2, 3, 4]"] by simp

text \<open>
  C7 as stated fails for a waveform of one sample: with \<open>fade_time_samples = 3\<close> the only
  \<open>t0\<close> of the range is \<open>-1\<close>, and the window overlaps the waveform in 1 sample.
\<close>

theorem window_overlap_single_sample:
  "(3::int) \<le> 3 \<and> - 3 + 2 \<le> (- 1 :: int) \<and> (- 1 :: int) \<le> int 1 - 2 \<and>
   window_overlap (- 1) 3 1 = 1"
  by (simp add: window_overlap_eq)


section \<open>The constructor\<close>

lemma resolve_gain_both:
  "resolve_gain (Some v) (Some w) d m1 m2 = Inl (ValueError m1)"
  by (simp add: resolve_gain_def)



lemma init_default:
  "GainTransition_init default_args =
     Inr (\<lparr>p = 1 / 2, parameters = empty_parameters, min_gain_db = - 24, max_gain_db = 6,
           min_duration = PyFloat (2 / 10), max_duration = PyFloat 6,
           duration_unit = ''seconds''\<rparr>, [])"
  by (simp add: GainTransition_init_def default_args_def base_init_def resolve_gain_def)



lemma init_duration_unit:
  assumes "GainTransition_init args = Inr (self, w)"
  shows "GainTransition_init (args\<lparr>arg_duration_unit := u\<rparr>) = Inr (self\<lparr>duration_unit := u\<rparr>, w)"
  using assms
  by (auto simp: GainTransition_init_def split: sum.splits if_splits prod.splits)

lemma randomize_invalid_unit:
  assumes "duration_unit self \<noteq> ''seconds''" "duration_unit self \<noteq> ''samples''"
    "duration_unit self \<noteq> ''fraction''" "fst (random_draw R g) < p self"
  shows "GainTransition_randomize_parameters R self g samples sample_rate =
           Inl (ValueError ''Invalid duration_unit'')"
  using assms
  by (auto simp: GainTransition_randomize_parameters_def base_randomize_parameters_def
      duration_in_samples_def bind_err_def split: prod.splits)

text \<open>
  C2 (as amended). The constructor does not examine \<open>duration_unit\<close>: a construction that
  succeeds also succeeds, with the same fields otherwise, when the unit is replaced by an
  unrecognized one. The check at randomization time is then reached: every
  \<^verbatim>\<open>randomize_parameters\<close> whose \<open>should_apply\<close> draw is true raises
  \<^verbatim>\<open>ValueError("Invalid duration_unit")\<close>.
\<close>

theorem duration_unit_checked_at_randomization:
  assumes "u \<noteq> ''seconds''" "u \<noteq> ''samples''" "u \<noteq> ''fraction''"
    and "GainTransition_init args = Inr (self, w)"
  shows "GainTransition_init (args\<lparr>arg_duration_unit := u\<rparr>) = Inr (self\<lparr>duration_unit := u\<rparr>, w) \<and>
         (fst (random_draw R g) < p self \<longrightarrow>
            GainTransition_randomize_parameters R (self\<lparr>duration_unit := u\<rparr>) g samples sample_rate =
              Inl (ValueError ''Invalid duration_unit''))"
  using init_duration_unit [OF assms(4)] randomize_invalid_unit [of "self\<lparr>duration_unit := u\<rparr>" R g]
    assms(1-3) by simp

theorem duration_unit_checked_at_randomization_witness:
  "''bogus'' \<noteq> ''seconds'' \<and> ''bogus'' \<noteq> ''samples'' \<and> ''bogus'' \<noteq> ''fraction'' \<and>
   GainTransition_init default_args =
     Inr (\<lparr>p = 1 / 2, parameters = empty_parameters, min_gain_db = - 24, max_gain_db = 6,
           min_duration = PyFloat (2 / 10), max_duration = PyFloat 6,
           duration_unit = ''seconds''\<rparr>, []) \<and>
   GainTransition_init (default_args\<lparr>arg_duration_unit := ''bogus''\<rparr>) =
     Inr (\<lparr>p = 1 / 2, parameters = empty_parameters, min_gain_db = - 24, max_gain_db = 6,
           min_duration = PyFloat (2 / 10), max_duration = PyFloat 6,
           duration_unit = ''bogus''\<rparr>, []) \<and>
   fst (random_draw example_source 1) < 1 / 2 \<and>
   GainTransition_randomize_parameters example_source
     \<lparr>p = 1 / 2, parameters = empty_parameters, min_gain_db = - 24, max_gain_db = 6,
      min_duration = PyFloat (2 / 10), max_duration = PyFloat 6,
      duration_unit = ''bogus''\<rparr> 1 example_stereo 16000 =
     Inl (ValueError ''Invalid duration_unit'')"
  using duration_unit_checked_at_randomization
    [of "''bogus''" default_args
        "\<lparr>p = 1 / 2, parameters = empty_parameters, min_gain_db = - 24, max_gain_db = 6,
           min_duration = PyFloat (2 / 10), max_duration = PyFloat 6,
           duration_unit = ''seconds''\<rparr>" "[]" example_source 1 example_stereo 16000]
  by (simp add: init_default example_source_def)

text \<open>
  C2 as stated fails: with the unit \<^verbatim>\<open>"bogus"\<close> and every other argument at its default
  the constructor returns an object, and randomizing its parameters raises.
\<close>

theorem init_accepts_unrecognized_unit:
  "GainTransition_init (default_args\<lparr>arg_duration_unit := ''bogus''\<rparr>) =
     Inr (\<lparr>p = 1 / 2, parameters = empty_parameters, min_gain_db = - 24, max_gain_db = 6,
           min_duration = PyFloat (2 / 10), max_duration = PyFloat 6,
           duration_unit = ''bogus''\<rparr>, []) \<and>
   GainTransition_randomize_parameters example_source
     \<lparr>p = 1 / 2, parameters = empty_parameters, min_gain_db = - 24, max_gain_db = 6,
      min_duration = PyFloat (2 / 10), max_duration = PyFloat 6,
      duration_unit = ''bogus''\<rparr> 1 example_stereo 16000 =
     Inl (ValueError ''Invalid duration_unit'')"
  by (simp add: GainTransition_init_def default_args_def base_init_def resolve_gain_def
      GainTransition_randomize_parameters_def base_randomize_parameters_def
      duration_in_samples_def bind_err_def example_source_def)

section \<open>Randomized parameters\<close>

text \<open>
  C8. After every \<^verbatim>\<open>randomize_parameters\<close> that returns with \<open>should_apply\<close> true, the
  stored \<open>fade_time_samples\<close> is an integer of at least 3, whatever the waveform, the
  sample rate, the configuration and the draws.
\<close>

theorem fade_time_samples_at_least_three:
  assumes "GainTransition_randomize_parameters R self g samples sample_rate = Inr (self', g')"
    and "should_apply (parameters self') = Some True"
  shows "\<exists>n. fade_time_samples (parameters self') = Some n \<and> 3 \<le> n"
  using assms
  by (auto simp: GainTransition_randomize_parameters_def base_randomize_parameters_def
      bind_err_def Let_def split: prod.splits sum.splits if_splits)

theorem fade_time_samples_at_least_three_witness:
  "GainTransition_randomize_parameters example_source
     \<lparr>p = 1, parameters = empty_parameters, min_gain_db = - 24, max_gain_db = 6,
      min_duration = PyInt 1, max_duration = PyInt 8, duration_unit = ''samples''\<rparr>
     0 example_stereo 16000 =
     Inr (\<lparr>p = 1, parameters =
             \<lparr>should_apply = Some True, fade_time_samples = Some 3, t0 = Some 1,
              start_gain_db = Some (- 18), end_gain_db = Some (- 19)\<rparr>,
           min_gain_db = - 24, max_gain_db = 6,
           min_duration = PyInt 1, max_duration = PyInt 8, duration_unit = ''samples''\<rparr>, 5) \<and>
   (\<exists>n. Some (3::int) = Some n \<and> 3 \<le> n)"
  using fade_time_samples_at_least_three
    [of example_source
        "\<lparr>p = 1, parameters = empty_parameters, min_gain_db = - 24, max_gain_db = 6,
          min_duration = PyInt 1, max_duration = PyInt 8, duration_unit = ''samples''\<rparr>"
        0 example_stereo 16000
        "\<lparr>p = 1, parameters =
             \<lparr>should_apply = Some True, fade_time_samples = Some 3, t0 = Some 1,
              start_gain_db = Some (- 18), end_gain_db = Some (- 19)\<rparr>,
           min_gain_db = - 24, max_gain_db = 6,
           min_duration = PyInt 1, max_duration = PyInt 8, duration_unit = ''samples''\<rparr>" 5]
  by (simp add: GainTransition_randomize_parameters_def base_randomize_parameters_def
      duration_in_samples_def bind_err_def example_source_def example_stereo_def
      empty_parameters_def shape_last_def uniform_def Let_def)


section \<open>Applying the transition\<close>

lemma length_imul_row: "length (imul_row row lo hi v) = length row"
  by (simp add: imul_row_def)


lemma imul_row_empty: "hi \<le> lo \<Longrightarrow> imul_row row lo hi v = row"
  by (rule nth_equalityI) (auto simp: imul_row_def)

lemma slice_indices_inside:
  "0 \<le> s \<Longrightarrow> s \<le> int n \<Longrightarrow> 0 \<le> e \<Longrightarrow> e \<le> int n \<Longrightarrow>
   slice_indices (Some s) (Some e) n = (nat s, nat e)"
  by (simp add: slice_indices_def slice_bound_def min_def)

lemma slice_indices_prefix:
  "0 \<le> s \<Longrightarrow> s \<le> int n \<Longrightarrow> slice_indices None (Some s) n = (0, nat s)"
  by (simp add: slice_indices_def slice_bound_def min_def)

lemma slice_indices_suffix:
  "0 \<le> e \<Longrightarrow> e \<le> int n \<Longrightarrow> slice_indices (Some e) None n = (nat e, n)"
  by (simp add: slice_indices_def slice_bound_def min_def)

lemma imul_slice_frame:
  assumes "imul_slice a s e v = Inr a'"
  shows "dtype a' = dtype a \<and> shape a' = shape a \<and>
         map length (rows a') = map length (rows a)"
  using assms
  by (auto simp: imul_slice_def length_imul_row split: sum.splits prod.splits if_splits)

lemma heap_imul_frame:
  assumes "heap_imul h r s e v = Inr h'" "r < length h"
  shows "length h' = length h \<and> take r h' = take r h \<and>
         dtype (h' ! r) = dtype (h ! r) \<and> shape (h' ! r) = shape (h ! r) \<and>
         map length (rows (h' ! r)) = map length (rows (h ! r))"
  using assms imul_slice_frame [of "h ! r" s e v]
  by (auto simp: heap_imul_def split: sum.splits)

lemma heap_imul_scalar_frame:
  assumes "heap_imul_scalar h r s e c = Inr h'" "r < length h"
  shows "length h' = length h \<and> take r h' = take r h \<and>
         dtype (h' ! r) = dtype (h ! r) \<and> shape (h' ! r) = shape (h ! r) \<and>
         map length (rows (h' ! r)) = map length (rows (h ! r))"
  using assms imul_slice_frame [of "h ! r" s e "[c]"]
  by (auto simp: heap_imul_scalar_def imul_slice_scalar_def split: sum.splits)

lemma apply_Inr_steps:
  assumes "GainTransition_apply self h samples sample_rate = Inr (out, h')"
  shows "out = length h \<and>
         (\<exists>v s e h2 h3.
            heap_imul (h @ [h ! samples]) (length h) (Some s) (Some e) v = Inr h2 \<and>
            (h3 = h2 \<or> (\<exists>c. heap_imul_scalar h2 (length h) None (Some s) c = Inr h3)) \<and>
            (h' = h3 \<or> (\<exists>c. heap_imul_scalar h3 (length h) (Some e) None c = Inr h')))"
  using assms
  unfolding GainTransition_apply_def bind_err_def np_copy_def
  by (auto split: sum.splits prod.splits if_splits; blast)

lemma apply_Inr_frame:
  assumes "GainTransition_apply self h samples sample_rate = Inr (out, h')"
  shows "out = length h \<and> length h' = Suc (length h) \<and> take (length h) h' = h \<and>
         dtype (h' ! out) = dtype (h ! samples) \<and> shape (h' ! out) = shape (h ! samples) \<and>
         map length (rows (h' ! out)) = map length (rows (h ! samples))"
proof -
  let ?r = "length h" and ?h1 = "h @ [h ! samples]"
  from apply_Inr_steps [OF assms] obtain v s e h2 h3 where
    out: "out = ?r" and
    s1: "heap_imul ?h1 ?r (Some s) (Some e) v = Inr h2" and
    s2: "h3 = h2 \<or> (\<exists>c. heap_imul_scalar h2 ?r None (Some s) c = Inr h3)" and
    s3: "h' = h3 \<or> (\<exists>c. heap_imul_scalar h3 ?r (Some e) None c = Inr h')"
    by blast
  have f1: "length h2 = Suc ?r \<and> take ?r h2 = h \<and>
            dtype (h2 ! ?r) = dtype (h ! samples) \<and> shape (h2 ! ?r) = shape (h ! samples) \<and>
            map length (rows (h2 ! ?r)) = map length (rows (h ! samples))"
    using heap_imul_frame [OF s1] by simp
  have f2: "length h3 = Suc ?r \<and> take ?r h3 = h \<and>
            dtype (h3 ! ?r) = dtype (h ! samples) \<and> shape (h3 ! ?r) = shape (h ! samples) \<and>
            map length (rows (h3 ! ?r)) = map length (rows (h ! samples))"
    using s2
  proof
    assume "h3 = h2" then show ?thesis using f1 by simp
  next
    assume "\<exists>c. heap_imul_scalar h2 ?r None (Some s) c = Inr h3"
    then obtain c where "heap_imul_scalar h2 ?r None (Some s) c = Inr h3" ..
    from heap_imul_scalar_frame [OF this] f1 show ?thesis by simp
  qed
  have f3: "length h' = Suc ?r \<and> take ?r h' = h \<and>
            dtype (h' ! ?r) = dtype (h ! samples) \<and> shape (h' ! ?r) = shape (h ! samples) \<and>
            map length (rows (h' ! ?r)) = map length (rows (h ! samples))"
    using s3
  proof
    assume "h' = h3" then show ?thesis using f2 by simp
  next
    assume "\<exists>c. heap_imul_scalar h3 ?r (Some e) None c = Inr h'"
    then obtain c where "heap_imul_scalar h3 ?r (Some e) None c = Inr h'" ..
    from heap_imul_scalar_frame [OF this] f2 show ?thesis by simp
  qed
  show ?thesis using out f3 by simp
qed


lemma shape_last_Inr: "shape a \<noteq> [] \<Longrightarrow> shape_last a = Inr (last (shape a))"
  by (cases "shape a") (simp_all add: shape_last_def)

lemma imul_slice_rows:
  assumes "shape a \<noteq> []" "slice_indices s e (last (shape a)) = (lo, hi)"
    "length v = hi - lo \<or> length v = 1"
  shows "imul_slice a s e v = Inr (a\<lparr>rows := map (\<lambda>r. imul_row r lo hi v) (rows a)\<rparr>)"
  using assms by (auto simp: imul_slice_def shape_last_Inr)

lemma heap_imul_last:
  assumes "imul_slice a s e v = Inr a'"
  shows "heap_imul (h @ [a]) (length h) s e v = Inr (h @ [a'])"
  using assms by (simp add: heap_imul_def)

lemma heap_imul_scalar_last:
  assumes "imul_slice a s e [c] = Inr a'"
  shows "heap_imul_scalar (h @ [a]) (length h) s e c = Inr (h @ [a'])"
  using assms by (simp add: heap_imul_scalar_def imul_slice_scalar_def)

lemma get_fade_mask_length:
  "get_fade_mask s e num = Inr m \<Longrightarrow> length m = nat num"
  by (auto simp: get_fade_mask_def np_linspace_def Let_def split: sum.splits if_splits)

lemma apply_valid:
  assumes sh: "shape (h ! samples) \<noteq> []"
    and ps: "start_gain_db (parameters self) = Some sg" "end_gain_db (parameters self) = Some eg"
      "fade_time_samples (parameters self) = Some fts" "t0 (parameters self) = Some t"
    and v: "3 \<le> fts" "- fts + 2 \<le> t" "t \<le> int (last (shape (h ! samples))) - 2"
    and c: "get_fade_mask sg eg fts = Inr curve"
      "crop_fade_mask curve t fts (int (last (shape (h ! samples)))) = (curve', es, ee)"
  shows "GainTransition_apply self h samples sample_rate =
     Inr (length h,
          h @ [(h ! samples)\<lparr>rows :=
                 map (\<lambda>row. imul_row
                               (imul_row (imul_row row (nat es) (nat ee) curve') 0 (nat es)
                                  [convert_decibels_to_amplitude_ratio sg])
                               (nat ee) (last (shape (h ! samples)))
                               [convert_decibels_to_amplitude_ratio eg])
                     (rows (h ! samples))\<rparr>])"
proof -
  let ?a0 = "h ! samples"
  let ?n = "last (shape ?a0)"
  let ?A = "convert_decibels_to_amplitude_ratio sg"
  let ?B = "convert_decibels_to_amplitude_ratio eg"
  have len: "length curve = nat fts" using c(1) by (rule get_fade_mask_length)
  from crop_fade_mask_valid [OF v len] c(2)
  have es: "es = max t 0" and ee: "ee = min (t + fts) (int ?n)"
    and lc: "int (length curve') = ee - es" by auto
  have b: "0 \<le> es" "es \<le> ee" "ee \<le> int ?n" "es \<le> int ?n" "0 \<le> ee"
    using v es ee by auto
  define a1 where "a1 = ?a0\<lparr>rows := map (\<lambda>r. imul_row r (nat es) (nat ee) curve') (rows ?a0)\<rparr>"
  define a2 where "a2 = a1\<lparr>rows := map (\<lambda>r. imul_row r 0 (nat es) [?A]) (rows a1)\<rparr>"
  define a3 where "a3 = a2\<lparr>rows := map (\<lambda>r. imul_row r (nat ee) ?n [?B]) (rows a2)\<rparr>"
  have sh1: "shape a1 = shape ?a0" "shape a2 = shape ?a0"
    by (simp_all add: a1_def a2_def)
  have "length curve' = nat ee - nat es" using lc b by linarith
  then have i1: "imul_slice ?a0 (Some es) (Some ee) curve' = Inr a1"
    unfolding a1_def using sh b
    by (intro imul_slice_rows) (simp_all add: slice_indices_inside)
  have i2: "imul_slice a1 None (Some es) [?A] = Inr a2"
    unfolding a2_def using sh sh1 b
    by (intro imul_slice_rows) (simp_all add: slice_indices_prefix)
  have i3: "imul_slice a2 (Some ee) None [?B] = Inr a3"
    unfolding a3_def using sh sh1 b
    by (intro imul_slice_rows) (simp_all add: slice_indices_suffix)
  have e2: "\<not> 0 < es \<Longrightarrow> a2 = a1"
    using b by (simp add: a2_def imul_row_empty)
  have e3: "\<not> ee < int ?n \<Longrightarrow> a3 = a2"
    using b by (simp add: a3_def imul_row_empty)
  have s1: "heap_imul (h @ [?a0]) (length h) (Some es) (Some ee) curve' = Inr (h @ [a1])"
    using i1 by (rule heap_imul_last)
  have s2: "(if 0 < es then heap_imul_scalar (h @ [a1]) (length h) None (Some es) ?A
             else Inr (h @ [a1])) = Inr (h @ [a2])"
    using heap_imul_scalar_last [OF i2, of h] e2 by simp
  have s3: "(if ee < int ?n then heap_imul_scalar (h @ [a2]) (length h) (Some ee) None ?B
             else Inr (h @ [a2])) = Inr (h @ [a3])"
    using heap_imul_scalar_last [OF i3, of h] e3 by simp
  have run: "GainTransition_apply self h samples sample_rate = Inr (length h, h @ [a3])"
    unfolding GainTransition_apply_def
    by (simp add: bind_err_def lookup_def shape_last_Inr [OF sh] ps c np_copy_def s1 s2 s3)
  have "a3 = ?a0\<lparr>rows :=
                 map (\<lambda>row. imul_row (imul_row (imul_row row (nat es) (nat ee) curve') 0 (nat es) [?A])
                               (nat ee) ?n [?B])
                     (rows ?a0)\<rparr>"
    by (simp add: a3_def a2_def a1_def comp_def)
  with run show ?thesis by simp
qed



lemma wf_ndarray_row:
  "wf_ndarray a \<Longrightarrow> c < length (rows a) \<Longrightarrow> length (rows a ! c) = last (shape a)"
  by (simp add: wf_ndarray_def list_all_length)



lemma example_curve:
  "get_fade_mask 0 (- 30) 4 =
     Inr [convert_decibels_to_amplitude_ratio 0, convert_decibels_to_amplitude_ratio (- 10),
          convert_decibels_to_amplitude_ratio (- 20), convert_decibels_to_amplitude_ratio (- 30)]"
  by (simp add: get_fade_mask_def np_linspace_def Let_def eval_nat_numeral)

lemma example_crop:
  "crop_fade_mask [a, b, c, d] (- 1) 4 5 = ([b, c, d], 0, 3)"
  by (simp add: crop_fade_mask_def Let_def getslice_def slice_indices_def slice_bound_def)

lemma example_row:
  "imul_row (imul_row (imul_row [x0, x1, x2, x3, x4] 0 3 [b, c, d]) 0 0 [A]) 3 5 [B]
     = [x0 * b, x1 * c, x2 * d, x3 * B, x4 * B]"
  by (simp add: imul_row_def eval_nat_numeral)

lemma example_apply:
  "GainTransition_apply example_transform [example_stereo] 0 16000 =
     Inr (1, [example_stereo,
              example_stereo\<lparr>rows :=
                [[convert_decibels_to_amplitude_ratio (- 10),
                  convert_decibels_to_amplitude_ratio (- 20),
                  convert_decibels_to_amplitude_ratio (- 30),
                  convert_decibels_to_amplitude_ratio (- 30),
                  convert_decibels_to_amplitude_ratio (- 30)],
                 [2 * convert_decibels_to_amplitude_ratio (- 10),
                  2 * convert_decibels_to_amplitude_ratio (- 20),
                  2 * convert_decibels_to_amplitude_ratio (- 30),
                  2 * convert_decibels_to_amplitude_ratio (- 30),
                  2 * convert_decibels_to_amplitude_ratio (- 30)]]\<rparr>])"
  using apply_valid [of "[example_stereo]" 0 example_transform 0 "- 30" 4 "- 1"
      "[convert_decibels_to_amplitude_ratio 0, convert_decibels_to_amplitude_ratio (- 10),
        convert_decibels_to_amplitude_ratio (- 20), convert_decibels_to_amplitude_ratio (- 30)]"
      "[convert_decibels_to_amplitude_ratio (- 10),
        convert_decibels_to_amplitude_ratio (- 20), convert_decibels_to_amplitude_ratio (- 30)]"
      0 3 16000]
  by (simp add: example_transform_def example_stereo_def example_curve example_crop example_row)

lemma example_wf: "wf_ndarray example_stereo"
  by (simp add: wf_ndarray_def example_stereo_def)


text \<open>
  C5. For a well-formed waveform of any number of axes and the same valid parameters,
  \<^verbatim>\<open>apply\<close> returns an array with the dtype, the shape, the number of channels and the
  row lengths of its input.
\<close>

theorem apply_preserves_shape_dtype:
  assumes "samples < length h" "wf_ndarray (h ! samples)"
    and "start_gain_db (parameters self) = Some sg" "end_gain_db (parameters self) = Some eg"
      "fade_time_samples (parameters self) = Some fts" "t0 (parameters self) = Some t"
    and "3 \<le> fts" "- fts + 2 \<le> t" "t \<le> int (last (shape (h ! samples))) - 2"
  shows "\<exists>out h'.
           GainTransition_apply self h samples sample_rate = Inr (out, h') \<and>
           dtype (h' ! out) = dtype (h ! samples) \<and>
           shape (h' ! out) = shape (h ! samples) \<and>
           length (rows (h' ! out)) = length (rows (h ! samples)) \<and>
           map length (rows (h' ! out)) = map length (rows (h ! samples)) \<and>
           wf_ndarray (h' ! out)"
proof -
  have sh: "shape (h ! samples) \<noteq> []" using assms(2) by (simp add: wf_ndarray_def)
  obtain curve where cu: "get_fade_mask sg eg fts = Inr curve"
    using get_fade_mask_Inr [of fts sg eg] assms(7) by auto
  obtain curve' es ee where
    cr: "crop_fade_mask curve t fts (int (last (shape (h ! samples)))) = (curve', es, ee)"
    by (metis prod_cases3)
  from apply_valid [OF sh assms(3-9) cu cr]
  obtain out h' where run: "GainTransition_apply self h samples sample_rate = Inr (out, h')"
    by blast
  from apply_Inr_frame [OF run]
  have f: "dtype (h' ! out) = dtype (h ! samples)" "shape (h' ! out) = shape (h ! samples)"
    "map length (rows (h' ! out)) = map length (rows (h ! samples))" by auto
  have l: "length (rows (h' ! out)) = length (rows (h ! samples))"
    using f(3) by (rule map_eq_imp_length_eq)
  have "list_all (\<lambda>r. length r = last (shape (h ! samples))) (rows (h' ! out))"
    unfolding list_all_length
  proof (intro allI impI)
    fix c assume c: "c < length (rows (h' ! out))"
    then have "length (rows (h' ! out) ! c) = map length (rows (h' ! out)) ! c" by simp
    also have "\<dots> = length (rows (h ! samples) ! c)" using c l f(3) by simp
    also have "\<dots> = last (shape (h ! samples))"
      using assms(2) c l by (simp add: wf_ndarray_row)
    finally show "length (rows (h' ! out) ! c) = last (shape (h ! samples))" .
  qed
  then have "wf_ndarray (h' ! out)"
    using assms(2) f l by (simp add: wf_ndarray_def)
  with run f l show ?thesis by blast
qed

theorem apply_preserves_shape_dtype_witness:
  "(0::nat) < length [example_stereo] \<and> wf_ndarray ([example_stereo] ! 0) \<and>
   start_gain_db (parameters example_transform) = Some 0 \<and>
   end_gain_db (parameters example_transform) = Some (- 30) \<and>
   fade_time_samples (parameters example_transform) = Some 4 \<and>
   t0 (parameters example_transform) = Some (- 1) \<and>
   (3::int) \<le> 4 \<and> - 4 + 2 \<le> (- 1::int) \<and>
   (- 1::int) \<le> int (last (shape ([example_stereo] ! 0))) - 2 \<and>
   (\<exists>out h'.
      GainTransition_apply example_transform [example_stereo] 0 16000 = Inr (out, h') \<and>
      dtype (h' ! out) = Float32 \<and> shape (h' ! out) = [2, 5] \<and>
      length (rows (h' ! out)) = 2 \<and> map length (rows (h' ! out)) = [5, 5] \<and>
      wf_ndarray (h' ! out))"
proof -
  have h1: "(0::nat) < length [example_stereo]" by simp
  have h2: "wf_ndarray ([example_stereo] ! 0)" by (simp add: example_wf)
  have h3: "start_gain_db (parameters example_transform) = Some 0"
    and h4: "end_gain_db (parameters example_transform) = Some (- 30)"
    and h5: "fade_time_samples (parameters example_transform) = Some 4"
    and h6: "t0 (parameters example_transform) = Some (- 1)"
    by (simp_all add: example_transform_def)
  have h7: "(3::int) \<le> 4" and h8: "- 4 + 2 \<le> (- 1::int)" by simp_all
  have h9: "(- 1::int) \<le> int (last (shape ([example_stereo] ! 0))) - 2"
    by (simp add: example_stereo_def)
  from apply_preserves_shape_dtype [OF h1 h2 h3 h4 h5 h6 h7 h8 h9, of 16000]
  obtain out h' where
    "GainTransition_apply example_transform [example_stereo] 0 16000 = Inr (out, h')"
    "dtype (h' ! out) = dtype example_stereo" "shape (h' ! out) = shape example_stereo"
    "length (rows (h' ! out)) = length (rows example_stereo)"
    "map length (rows (h' ! out)) = map length (rows example_stereo)"
    "wf_ndarray (h' ! out)" by auto
  then have "\<exists>out h'.
      GainTransition_apply example_transform [example_stereo] 0 16000 = Inr (out, h') \<and>
      dtype (h' ! out) = Float32 \<and> shape (h' ! out) = [2, 5] \<and>
      length (rows (h' ! out)) = 2 \<and> map length (rows (h' ! out)) = [5, 5] \<and>
      wf_ndarray (h' ! out)"
    by (intro exI [of _ out] exI [of _ h']) (simp add: example_stereo_def)
  then show ?thesis using h1 h2 h3 h4 h5 h6 h7 h8 h9 by blast
qed

text \<open>
  C6. Whenever \<^verbatim>\<open>apply\<close> returns, the reference it returns is a new one, different from
  the caller's and from every reference of the store before the call, and every array of
  that store, the caller's input among them, holds what it held before.
\<close>

theorem apply_leaves_input_untouched:
  assumes "GainTransition_apply self h samples sample_rate = Inr (out, h')"
    and "samples < length h"
  shows "out \<noteq> samples \<and> \<not> out < length h \<and> out < length h' \<and>
         h' ! samples = h ! samples \<and> take (length h) h' = h"
proof -
  from apply_Inr_frame [OF assms(1)]
  have f: "out = length h" "length h' = Suc (length h)" "take (length h) h' = h" by auto
  have "h' ! samples = take (length h) h' ! samples" using assms(2) by simp
  then have "h' ! samples = h ! samples" using f(3) by simp
  then show ?thesis using f assms(2) by simp
qed

theorem apply_leaves_input_untouched_witness:
  "GainTransition_apply example_transform [example_stereo] 0 16000 =
     Inr (1, [example_stereo,
              example_stereo\<lparr>rows :=
                [[convert_decibels_to_amplitude_ratio (- 10),
                  convert_decibels_to_amplitude_ratio (- 20),
                  convert_decibels_to_amplitude_ratio (- 30),
                  convert_decibels_to_amplitude_ratio (- 30),
                  convert_decibels_to_amplitude_ratio (- 30)],
                 [2 * convert_decibels_to_amplitude_ratio (- 10),
                  2 * convert_decibels_to_amplitude_ratio (- 20),
                  2 * convert_decibels_to_amplitude_ratio (- 30),
                  2 * convert_decibels_to_amplitude_ratio (- 30),
                  2 * convert_decibels_to_amplitude_ratio (- 30)]]\<rparr>]) \<and>
   (0::nat) < length [example_stereo] \<and>
   (1::nat) \<noteq> 0 \<and> \<not> (1::nat) < length [example_stereo] \<and>
   [example_stereo,
    example_stereo\<lparr>rows :=
      [[convert_decibels_to_amplitude_ratio (- 10),
        convert_decibels_to_amplitude_ratio (- 20),
        convert_decibels_to_amplitude_ratio (- 30),
        convert_decibels_to_amplitude_ratio (- 30),
        convert_decibels_to_amplitude_ratio (- 30)],
       [2 * convert_decibels_to_amplitude_ratio (- 10),
        2 * convert_decibels_to_amplitude_ratio (- 20),
        2 * convert_decibels_to_amplitude_ratio (- 30),
        2 * convert_decibels_to_amplitude_ratio (- 30),
        2 * convert_decibels_to_amplitude_ratio (- 30)]]\<rparr>] ! 0 = [example_stereo] ! 0"
  using apply_leaves_input_untouched [OF example_apply] example_apply by simp


subsection \<open>Alignment of the cropped curve\<close>

lemma getslice_from_nth:
  "0 \<le> k \<Longrightarrow> nat k + j < length xs \<Longrightarrow> getslice xs (Some k) None ! j = xs ! (nat k + j)"
  by (auto simp: getslice_def slice_indices_def slice_bound_def min_def)

lemma getslice_upto_nth:
  "0 \<le> m \<Longrightarrow> m \<le> int (length xs) \<Longrightarrow> j < nat m \<Longrightarrow> getslice xs None (Some m) ! j = xs ! j"
  by (auto simp: getslice_def slice_indices_def slice_bound_def min_def)

lemma nat_diff_int: "0 \<le> k \<Longrightarrow> i - nat k = nat (int i - k)"
  by linarith

lemma nat_neg_add_int: "k < 0 \<Longrightarrow> nat (- k) + i = nat (int i - k)"
  by linarith

lemma crop_fade_mask_nth:
  assumes "3 \<le> fts" "- fts + 2 \<le> t" "t \<le> int n - 2" "length curve = nat fts"
    and "crop_fade_mask curve t fts (int n) = (curve', es, ee)"
    and "es \<le> int i" "int i < ee"
  shows "curve' ! (i - nat es) = curve ! nat (int i - t)"
  using assms
  by (auto simp: crop_fade_mask_def Let_def length_getslice_from getslice_from_nth
      getslice_upto_nth nat_diff_int nat_neg_add_int split: if_splits)

text \<open>
  The cropped curve is the part of the full curve that lies over the waveform: the sample
  at index \<open>i\<close> of the effective range meets the point \<open>i - t0\<close> of the interpolation in
  decibels.
\<close>

lemma cropped_curve_value:
  assumes "3 \<le> fts" "- fts + 2 \<le> t" "t \<le> int n - 2"
    and "get_fade_mask sg eg fts = Inr curve"
    and "crop_fade_mask curve t fts (int n) = (curve', es, ee)"
    and "es \<le> int i" "int i < ee"
  shows "curve' ! (i - nat es) =
           convert_decibels_to_amplitude_ratio
             (sg + real_of_int (int i - t) * (eg - sg) / real_of_int (fts - 1))"
proof -
  have len: "length curve = nat fts" using assms(4) by (rule get_fade_mask_length)
  from crop_fade_mask_valid [OF assms(1-3) len] assms(5)
  have es: "es = max t 0" and ee: "ee = min (t + fts) (int n)" by auto
  have r: "0 \<le> int i - t" "int i - t < fts" using assms(6,7) es ee by auto
  have "curve' ! (i - nat es) = curve ! nat (int i - t)"
    using crop_fade_mask_nth [OF assms(1-3) len assms(5-7)] .
  also have "\<dots> = convert_decibels_to_amplitude_ratio
      (sg + real (nat (int i - t)) * (eg - sg) / real_of_int (fts - 1))"
    using assms(1) r by (intro get_fade_mask_nth [OF _ assms(4)]) auto
  also have "real (nat (int i - t)) = real_of_int (int i - t)" using r by simp
  finally show ?thesis .
qed

section \<open>Determinism\<close>

lemma duration_in_samples_parameters:
  "duration_in_samples (self\<lparr>parameters := ps\<rparr>) a sample_rate =
   duration_in_samples self a sample_rate"
  by (simp add: duration_in_samples_def split: sum.splits)

lemma parameters_overwritten:
  "(ps :: parameters)\<lparr>should_apply := a, fade_time_samples := b, t0 := c,
       start_gain_db := d, end_gain_db := e\<rparr> =
   \<lparr>should_apply = a, fade_time_samples = b, t0 = c, start_gain_db = d, end_gain_db = e\<rparr>"
  by (cases ps) simp

lemma randomize_drawn_true:
  assumes "fst (random_draw R g) < p self"
  shows "GainTransition_randomize_parameters R (self\<lparr>parameters := ps\<rparr>) g a sample_rate =
         GainTransition_randomize_parameters R (self\<lparr>parameters := ps'\<rparr>) g a sample_rate"
proof -
  obtain u g1 where d: "random_draw R g = (u, g1)" by (cases "random_draw R g")
  have u: "u < p self" using assms d by simp
  show ?thesis
    unfolding GainTransition_randomize_parameters_def base_randomize_parameters_def
    by (simp add: d u duration_in_samples_parameters split_def Let_def parameters_overwritten)
qed

lemma randomize_drawn_false:
  assumes "\<not> fst (random_draw R g) < p self"
  shows "GainTransition_randomize_parameters R (self\<lparr>parameters := ps\<rparr>) g a sample_rate =
         Inr (self\<lparr>parameters := ps\<lparr>should_apply := Some False\<rparr>\<rparr>, snd (random_draw R g))"
  using assms
  by (auto simp: GainTransition_randomize_parameters_def base_randomize_parameters_def
      split: prod.splits)

lemma call_result_independent_of_parameters:
  "call_result (transform_call R (self\<lparr>parameters := ps\<rparr>) g h samples sample_rate) =
   call_result (transform_call R (self\<lparr>parameters := ps'\<rparr>) g h samples sample_rate)"
proof (cases "fst (random_draw R g) < p self")
  case True
  then show ?thesis
    by (simp add: transform_call_def randomize_drawn_true [OF True, where ps = ps and ps' = ps'])
next
  case False
  then show ?thesis
    by (simp add: transform_call_def randomize_drawn_false bind_err_def call_result_def)
qed

text \<open>
  C9. Two instances constructed from the same arguments, run on the same generator from
  the same state, on the same store, waveform and sample rate, give the same result of
  randomize-then-apply; and what the caller observes (the returned reference, the store,
  the generator state, or the error) stays the same whatever parameters earlier
  invocations left in either instance.
\<close>

theorem call_deterministic:
  assumes "GainTransition_init args = Inr (self1, w1)"
    and "GainTransition_init args = Inr (self2, w2)"
  shows "transform_call R self1 g h samples sample_rate =
           transform_call R self2 g h samples sample_rate \<and>
         call_result (transform_call R (self1\<lparr>parameters := ps1\<rparr>) g h samples sample_rate) =
           call_result (transform_call R (self2\<lparr>parameters := ps2\<rparr>) g h samples sample_rate)"
proof -
  have "self1 = self2" using assms by simp
  then show ?thesis by (simp add: call_result_independent_of_parameters [where ps = ps1 and ps' = ps2])
qed


theorem call_deterministic_witness:
  "GainTransition_init default_args =
     Inr (\<lparr>p = 1 / 2, parameters = empty_parameters, min_gain_db = - 24, max_gain_db = 6,
           min_duration = PyFloat (2 / 10), max_duration = PyFloat 6,
           duration_unit = ''seconds''\<rparr>, []) \<and>
   call_result
     (transform_call example_source
        (\<lparr>p = 1 / 2, parameters = empty_parameters, min_gain_db = - 24, max_gain_db = 6,
          min_duration = PyFloat (2 / 10), max_duration = PyFloat 6,
          duration_unit = ''seconds''\<rparr>\<lparr>parameters := empty_parameters\<rparr>)
        1 [example_stereo] 0 16000) =
   call_result
     (transform_call example_source
        (\<lparr>p = 1 / 2, parameters = empty_parameters, min_gain_db = - 24, max_gain_db = 6,
          min_duration = PyFloat (2 / 10), max_duration = PyFloat 6,
          duration_unit = ''seconds''\<rparr>\<lparr>parameters := parameters example_transform\<rparr>)
        1 [example_stereo] 0 16000)"
  using call_deterministic [OF init_default init_default,
      of example_source 1 "[example_stereo]" 0 16000 empty_parameters
         "parameters example_transform"]
    init_default
  by simp

end
